theory Spec2Isabelle
  imports Complex_Main
begin

section \<open>Numbers and vectors\<close>

text \<open>
  The program is \<^verbatim>\<open>graph.js\<close>: a root sphere, two child spheres whose positions
  follow one angle, two cylinders joining root and children, and a perspective camera
  whose field of view, near plane and far plane are changed from the keyboard.

  A JavaScript number is an IEEE double. This development reads every number as an ideal
  real: \<open>Math.sin\<close>, \<open>Math.cos\<close>, \<open>Math.PI\<close>, \<open>Math.max\<close> and \<open>Math.min\<close> are
  \<open>sin\<close>, \<open>cos\<close>, \<open>pi\<close>, \<open>max\<close> and \<open>min\<close> on \<open>real\<close>, and the literal \<open>0.1\<close> is
  one tenth. Rounding is outside the model.
\<close>

text \<open>
  \<open>THREE.Vector3\<close>. The library is imported by the program and is not part of its
  source; the methods the program calls on a vector are written out here by their
  documented meaning.
\<close>

datatype Vector3 = Vector3 (vx: real) (vy: real) (vz: real)

text \<open>Modelled from the spec: \<open>subVectors(a, b)\<close> of the library, the difference a - b
  ("direction vector = end - start").\<close>

definition subVectors :: "Vector3 \<Rightarrow> Vector3 \<Rightarrow> Vector3" where
  "subVectors a b = Vector3 (vx a - vx b) (vy a - vy b) (vz a - vz b)"

text \<open>Modelled from the spec: \<open>length()\<close> of the library, the Euclidean norm
  ("length = norm of direction").\<close>

definition vlength :: "Vector3 \<Rightarrow> real" where
  "vlength v = sqrt (vx v * vx v + vy v * vy v + vz v * vz v)"

text \<open>Modelled from the spec: \<open>p.addScaledVector(v, s)\<close> of the library, p + s v
  ("start + 0.5 direction").\<close>

definition addScaledVector :: "Vector3 \<Rightarrow> Vector3 \<Rightarrow> real \<Rightarrow> Vector3" where
  "addScaledVector p v s = Vector3 (vx p + vx v * s) (vy p + vy v * s) (vz p + vz v * s)"

text \<open>Modelled from the spec: \<open>multiplyScalar(s)\<close> of the library, the vector scaled
  by s; \<open>normalize\<close> is written with it.\<close>

definition multiplyScalar :: "Vector3 \<Rightarrow> real \<Rightarrow> Vector3" where
  "multiplyScalar v s = Vector3 (vx v * s) (vy v * s) (vz v * s)"

text \<open>Modelled from the spec: \<open>normalize()\<close> of the library, the vector divided by its
  length; the library divides by 1 when the length is 0.\<close>

definition normalize :: "Vector3 \<Rightarrow> Vector3" where
  "normalize v = multiplyScalar v (1 / (if vlength v = 0 then 1 else vlength v))"

text \<open>Modelled from the spec: \<open>crossVectors(a, b)\<close> of the library, the cross product,
  which \<open>lookAt\<close> uses to complete the frame around the direction to the target.\<close>

definition crossVectors :: "Vector3 \<Rightarrow> Vector3 \<Rightarrow> Vector3" where
  "crossVectors a b =
     Vector3 (vy a * vz b - vz a * vy b) (vz a * vx b - vx a * vz b) (vx a * vy b - vy a * vx b)"

section \<open>Scene objects\<close>

text \<open>
  The geometry a mesh is built from, with the constructor arguments the program passes:
  \<open>SphereGeometry(radius, widthSegments, heightSegments)\<close> and
  \<open>CylinderGeometry(radiusTop, radiusBottom, height, radialSegments, heightSegments)\<close>.
  \<open>HelperGeometry\<close> stands for the grid, the axes and the camera helper, which the
  program adds to the scene and never reads again.
\<close>

datatype geometry =
    SphereGeometry real nat nat
  | CylinderGeometry real real real nat nat
  | HelperGeometry

text \<open>
  A \<open>THREE.Mesh\<close>: geometry, material colour, position, and orientation. The library
  stores the orientation as a quaternion; the model stores the rotation it stands for,
  as the images of the local X, Y and Z axes.
\<close>

record Object3D =
  geometry :: geometry
  color :: nat
  position :: Vector3
  axisX :: Vector3
  axisY :: Vector3
  axisZ :: Vector3

definition newMesh :: "geometry \<Rightarrow> nat \<Rightarrow> Object3D" where
  "newMesh g c =
     \<lparr> geometry = g, color = c, position = Vector3 0 0 0,
       axisX = Vector3 1 0 0, axisY = Vector3 0 1 0, axisZ = Vector3 0 0 1 \<rparr>"

text \<open>Modelled from the spec: \<open>Object3D.lookAt(target)\<close> of the library
  ("orient-to-target"). For an object that is neither a camera nor a light the local Z
  axis is turned towards the target, seen from the object's position; the X axis is
  the normalised cross product of the up vector (0, 1, 0) and Z, the Y axis is the
  cross product of Z and X. What the library does when the direction to the target is
  parallel to the up vector is not described by the spec and is not modelled.\<close>

definition lookAt :: "Object3D \<Rightarrow> Vector3 \<Rightarrow> Object3D" where
  "lookAt ob target =
     (let z = normalize (subVectors target (position ob));
          x = normalize (crossVectors (Vector3 0 1 0) z);
          y = crossVectors z x
      in ob\<lparr> axisX := x, axisY := y, axisZ := z \<rparr>)"

text \<open>Modelled from the spec: \<open>Object3D.rotateX(angle)\<close> of the library ("rotate
  about the local X axis"): the rotation is composed on the right with the rotation by
  the angle about X, which sends Y to cos Y + sin Z and Z to cos Z - sin Y.\<close>

definition rotateX :: "Object3D \<Rightarrow> real \<Rightarrow> Object3D" where
  "rotateX ob a =
     ob\<lparr> axisY := addScaledVector (multiplyScalar (axisY ob) (cos a)) (axisZ ob) (sin a),
         axisZ := addScaledVector (multiplyScalar (axisZ ob) (cos a)) (axisY ob) (- sin a) \<rparr>"

subsection \<open>Configuration\<close>

definition sphereRadius :: real where "sphereRadius = 0.5"
definition edgeRadius :: real where "edgeRadius = 0.05"
definition mainSphereColor :: nat where "mainSphereColor = 4500104"
definition childSphereColor :: nat where "childSphereColor = 4491434"
definition edgeColor :: nat where "edgeColor = 11184810"

subsection \<open>createSphere and createEdge\<close>

definition createSphere :: "nat \<Rightarrow> Object3D" where
  "createSphere c = newMesh (SphereGeometry sphereRadius 32 32) c"

definition createEdge :: "Vector3 \<Rightarrow> Vector3 \<Rightarrow> Object3D" where
  "createEdge start end =
     (let direction = subVectors end start;
          len = vlength direction;
          edge = newMesh (CylinderGeometry edgeRadius edgeRadius len 8 1) edgeColor;
          edge = edge\<lparr> position := start \<rparr>;
          edge = edge\<lparr> position := addScaledVector (position edge) direction 0.5 \<rparr>;
          edge = lookAt edge end;
          edge = rotateX edge (pi / 2)
      in edge)"

text \<open>The height of the cylinder of an edge, and whether an object is an edge.\<close>

fun cylinderHeight :: "geometry \<Rightarrow> real option" where
  "cylinderHeight (CylinderGeometry rt rb h rs hs) = Some h"
| "cylinderHeight g = None"

fun isCylinder :: "geometry \<Rightarrow> bool" where
  "isCylinder (CylinderGeometry rt rb h rs hs) = True"
| "isCylinder g = False"

section \<open>Program state\<close>

text \<open>
  The perspective camera. \<open>aspect\<close> is \<open>window.innerWidth / window.innerHeight\<close>;
  \<open>None\<close> stands for a quotient that is not a finite number (the height is 0).
  \<open>updateProjectionMatrix\<close> computes the projection matrix from the four fields; the
  model keeps, as \<open>projection\<close>, the four values the matrix was last computed from.
\<close>

definition js_div :: "real \<Rightarrow> real \<Rightarrow> real option" where
  "js_div a b = (if b = 0 then None else Some (a / b))"

record frustum =
  p_fov :: real
  p_aspect :: "real option"
  p_near :: real
  p_far :: real

record camera =
  cam_fov :: real
  cam_aspect :: "real option"
  cam_near :: real
  cam_far :: real
  cam_position :: Vector3
  projection :: frustum

definition updateProjectionMatrix :: "camera \<Rightarrow> camera" where
  "updateProjectionMatrix c =
     c\<lparr> projection := \<lparr> p_fov = cam_fov c, p_aspect = cam_aspect c,
                          p_near = cam_near c, p_far = cam_far c \<rparr> \<rparr>"

text \<open>
  The module's variables once \<open>main\<close> has run. Objects live in \<open>heap\<close>; a handle is
  an index into it, and \<open>new\<close> appends. \<open>children\<close> is the scene's list of children.
  \<open>edge1\<close> and \<open>edge2\<close> are \<open>undefined\<close> (\<open>None\<close>) until the first layout.
  \<open>helperView\<close> is what the camera helper last drew (\<open>cameraHelper.update()\<close> reads
  the camera's projection).
\<close>

record state =
  heap :: "Object3D list"
  children :: "nat list"
  mainSphere :: nat
  childSphere1 :: nat
  childSphere2 :: nat
  edge1 :: "nat option"
  edge2 :: "nat option"
  fov :: real
  near :: real
  far :: real
  angleBetweenChildren :: real
  camera :: camera
  helperView :: frustum
  rendererSize :: "nat \<times> nat"

definition alloc :: "Object3D list \<Rightarrow> Object3D \<Rightarrow> Object3D list \<times> nat" where
  "alloc h ob = (h @ [ob], length h)"

text \<open>\<open>object.position.set(x, y, z)\<close> and reading \<open>object.position\<close>, for the object
  behind a handle.\<close>

definition setPosition :: "Object3D list \<Rightarrow> nat \<Rightarrow> Vector3 \<Rightarrow> Object3D list" where
  "setPosition h i p = h[i := (h ! i)\<lparr> position := p \<rparr>]"

definition positionOf :: "Object3D list \<Rightarrow> nat \<Rightarrow> Vector3" where
  "positionOf h i = position (h ! i)"

text \<open>Modelled from the spec: \<open>scene.remove(object)\<close> of the library ("removes the
  edge from the active scene, if present"); removing \<open>undefined\<close> changes nothing.\<close>

definition sceneRemove :: "nat list \<Rightarrow> nat option \<Rightarrow> nat list" where
  "sceneRemove cs ob = (case ob of None \<Rightarrow> cs | Some i \<Rightarrow> remove1 i cs)"

text \<open>Modelled from the spec: \<open>scene.add(object)\<close> of the library ("adds them to the
  scene"): the object is taken out of the parent it has and appended to the children.\<close>

definition sceneAdd :: "nat list \<Rightarrow> nat \<Rightarrow> nat list" where
  "sceneAdd cs i = remove1 i cs @ [i]"

section \<open>Layout and edges: updateChildPositions\<close>

definition updateChildPositions :: "state \<Rightarrow> state" where
  "updateChildPositions s =
     (let distance = 3;
          halfAngle = angleBetweenChildren s / 2;
          h1 = setPosition (heap s) (childSphere1 s)
                 (Vector3 (sin halfAngle * distance) (- distance) (- cos halfAngle * distance));
          h2 = setPosition h1 (childSphere2 s)
                 (Vector3 (- sin halfAngle * distance) (- distance) (- cos halfAngle * distance));
          c1 = sceneRemove (children s) (edge1 s);
          c2 = sceneRemove c1 (edge2 s);
          (h3, e1) = alloc h2 (createEdge (positionOf h2 (mainSphere s))
                                          (positionOf h2 (childSphere1 s)));
          (h4, e2) = alloc h3 (createEdge (positionOf h3 (mainSphere s))
                                          (positionOf h3 (childSphere2 s)));
          c3 = sceneAdd c2 e1;
          c4 = sceneAdd c3 e2
      in s\<lparr> heap := h4, children := c4, edge1 := Some e1, edge2 := Some e2 \<rparr>)"

section \<open>Camera: updateCamera and onWindowResize\<close>

text \<open>\<open>console.log\<close> in \<open>updateCamera\<close> changes no variable and is left out.\<close>

definition updateCamera :: "state \<Rightarrow> state" where
  "updateCamera s =
     (let c = (camera s)\<lparr> cam_fov := fov s, cam_near := near s, cam_far := far s \<rparr>;
          c = updateProjectionMatrix c
      in s\<lparr> camera := c, helperView := projection c \<rparr>)"

text \<open>The two arguments are \<open>window.innerWidth\<close> and \<open>window.innerHeight\<close> as the
  handler reads them.\<close>

definition onWindowResize :: "nat \<Rightarrow> nat \<Rightarrow> state \<Rightarrow> state" where
  "onWindowResize innerWidth innerHeight s =
     (let c = (camera s)\<lparr> cam_aspect := js_div (real innerWidth) (real innerHeight) \<rparr>;
          c = updateProjectionMatrix c
      in s\<lparr> camera := c, rendererSize := (innerWidth, innerHeight),
            helperView := projection c \<rparr>)"

section \<open>Keyboard: onKeyDown\<close>

definition onKeyDown :: "string \<Rightarrow> state \<Rightarrow> state" where
  "onKeyDown key s =
     (let step = pi / 36 in
      if key = ''ArrowLeft'' then
        updateChildPositions
          (s\<lparr> angleBetweenChildren := max 0 (angleBetweenChildren s - step) \<rparr>)
      else if key = ''ArrowRight'' then
        updateChildPositions
          (s\<lparr> angleBetweenChildren := min pi (angleBetweenChildren s + step) \<rparr>)
      else if key = ''f'' then updateCamera (s\<lparr> fov := max 10 (fov s - 5) \<rparr>)
      else if key = ''F'' then updateCamera (s\<lparr> fov := min 120 (fov s + 5) \<rparr>)
      else if key = ''n'' then updateCamera (s\<lparr> near := max 0.1 (near s - 0.1) \<rparr>)
      else if key = ''N'' then updateCamera (s\<lparr> near := min 10 (near s + 0.1) \<rparr>)
      else if key = ''r'' then updateCamera (s\<lparr> far := max 10 (far s - 5) \<rparr>)
      else if key = ''R'' then updateCamera (s\<lparr> far := min 100 (far s + 5) \<rparr>)
      else s)"

section \<open>Start-up and events\<close>

text \<open>
  \<open>main\<close> with a canvas present, in a window of the given inner width and height. (With
  no canvas \<open>main\<close> returns before it creates anything and registers no listener, so
  no event is ever handled.) The axis labels are added by a font loader's callback at
  some later time and are not modelled; orbit controls move the camera only.
\<close>

definition main :: "nat \<Rightarrow> nat \<Rightarrow> state" where
  "main innerWidth innerHeight =
     (let aspect = js_div (real innerWidth) (real innerHeight);
          cam = updateProjectionMatrix
                  \<lparr> cam_fov = 75, cam_aspect = aspect, cam_near = 0.1, cam_far = 50,
                    cam_position = Vector3 0 0 0,
                    projection = \<lparr> p_fov = 75, p_aspect = aspect, p_near = 0.1, p_far = 50 \<rparr> \<rparr>;
          cam = cam\<lparr> cam_position := Vector3 0 0 10 \<rparr>;
          (h, m) = alloc [] (createSphere mainSphereColor);
          (h, c1) = alloc h (createSphere childSphereColor);
          (h, c2) = alloc h (createSphere childSphereColor);
          cs = sceneAdd (sceneAdd (sceneAdd [] m) c1) c2;
          s = updateChildPositions
                \<lparr> heap = h, children = cs, mainSphere = m, childSphere1 = c1,
                  childSphere2 = c2, edge1 = None, edge2 = None,
                  fov = 75, near = 0.1, far = 50, angleBetweenChildren = pi / 4,
                  camera = cam, helperView = projection cam,
                  rendererSize = (innerWidth, innerHeight) \<rparr>;
          (h, gridHelper) = alloc (heap s) (newMesh HelperGeometry 16777215);
          cs = sceneAdd (children s) gridHelper;
          (h, axisHelper) = alloc h (newMesh HelperGeometry 0);
          cs = sceneAdd cs axisHelper;
          (h, cameraHelper) = alloc h (newMesh HelperGeometry 0);
          cs = sceneAdd cs cameraHelper
      in s\<lparr> heap := h, children := cs, helperView := projection cam \<rparr>)"

datatype event = KeyDown string | Resize nat nat

fun handle :: "event \<Rightarrow> state \<Rightarrow> state" where
  "handle (KeyDown key) s = onKeyDown key s"
| "handle (Resize w h) s = onWindowResize w h s"

fun run :: "event list \<Rightarrow> state \<Rightarrow> state" where
  "run [] s = s"
| "run (e # es) s = run es (handle e s)"

text \<open>The same key pressed \<open>n\<close> times.\<close>

definition presses :: "nat \<Rightarrow> string \<Rightarrow> event list" where
  "presses n key = replicate n (KeyDown key)"

section \<open>Well-formed states\<close>

text \<open>
  The three spheres are three different objects of the heap. \<open>main\<close> establishes
  this and no handler assigns the three variables.
\<close>

definition handlesValid :: "state \<Rightarrow> bool" where
  "handlesValid s =
     (mainSphere s < length (heap s) \<and> childSphere1 s < length (heap s)
      \<and> childSphere2 s < length (heap s)
      \<and> distinct [mainSphere s, childSphere1 s, childSphere2 s])"

text \<open>The children of the scene that are edges (meshes over a cylinder), in order.\<close>

definition edgesInScene :: "state \<Rightarrow> nat list" where
  "edgesInScene s = filter (\<lambda>i. isCylinder (geometry (heap s ! i))) (children s)"

text \<open>
  A scene as the library keeps it and the program uses it: every child is an object of
  the heap, no object is a child twice, and the edges among the children are the ones
  recorded in \<open>edge1\<close> and \<open>edge2\<close>.
\<close>

definition sceneOk :: "state \<Rightarrow> bool" where
  "sceneOk s =
     (distinct (children s)
      \<and> list_all (\<lambda>i. i < length (heap s)) (children s)
      \<and> list_all (\<lambda>i. edge1 s = Some i \<or> edge2 s = Some i) (edgesInScene s))"

text \<open>
  A well-formed state: valid handles, a scene as above, and the root at the origin
  (\<open>mainSphere.position\<close> is never written, so it keeps the position a new mesh has).
\<close>

definition wellFormed :: "state \<Rightarrow> bool" where
  "wellFormed s =
     (handlesValid s \<and> sceneOk s \<and> positionOf (heap s) (mainSphere s) = Vector3 0 0 0)"

text \<open>
  The layout is current: the two children stand where the angle puts them, the edges
  among the scene's children are exactly the two recorded ones, and these are the
  cylinders from the origin to the two children.
\<close>

definition layoutCurrent :: "state \<Rightarrow> bool" where
  "layoutCurrent s =
     (let halfAngle = angleBetweenChildren s / 2;
          p1 = Vector3 (sin halfAngle * 3) (- 3) (- cos halfAngle * 3);
          p2 = Vector3 (- sin halfAngle * 3) (- 3) (- cos halfAngle * 3)
      in positionOf (heap s) (childSphere1 s) = p1
         \<and> positionOf (heap s) (childSphere2 s) = p2
         \<and> map Some (edgesInScene s) = [edge1 s, edge2 s]
         \<and> map (\<lambda>i. heap s ! i) (edgesInScene s) =
             [createEdge (Vector3 0 0 0) p1, createEdge (Vector3 0 0 0) p2])"

section \<open>What each handler leaves alone\<close>

lemma updateChildPositions_frame:
  "angleBetweenChildren (updateChildPositions s) = angleBetweenChildren s"
  "fov (updateChildPositions s) = fov s"
  "near (updateChildPositions s) = near s"
  "far (updateChildPositions s) = far s"
  "camera (updateChildPositions s) = camera s"
  "helperView (updateChildPositions s) = helperView s"
  "rendererSize (updateChildPositions s) = rendererSize s"
  "mainSphere (updateChildPositions s) = mainSphere s"
  "childSphere1 (updateChildPositions s) = childSphere1 s"
  "childSphere2 (updateChildPositions s) = childSphere2 s"
  by (simp_all add: updateChildPositions_def Let_def alloc_def)

lemma updateCamera_frame:
  "angleBetweenChildren (updateCamera s) = angleBetweenChildren s"
  "fov (updateCamera s) = fov s"
  "near (updateCamera s) = near s"
  "far (updateCamera s) = far s"
  "heap (updateCamera s) = heap s"
  "children (updateCamera s) = children s"
  "edge1 (updateCamera s) = edge1 s"
  "edge2 (updateCamera s) = edge2 s"
  "mainSphere (updateCamera s) = mainSphere s"
  "childSphere1 (updateCamera s) = childSphere1 s"
  "childSphere2 (updateCamera s) = childSphere2 s"
  "rendererSize (updateCamera s) = rendererSize s"
  by (simp_all add: updateCamera_def Let_def)

lemma onKeyDown_near:
  "near (onKeyDown key s) =
     (if key = ''n'' then max 0.1 (near s - 0.1)
      else if key = ''N'' then min 10 (near s + 0.1) else near s)"
  by (simp add: onKeyDown_def Let_def updateChildPositions_frame updateCamera_frame)

lemma onKeyDown_far:
  "far (onKeyDown key s) =
     (if key = ''r'' then max 10 (far s - 5)
      else if key = ''R'' then min 100 (far s + 5) else far s)"
  by (simp add: onKeyDown_def Let_def updateChildPositions_frame updateCamera_frame)

lemma onKeyDown_fov:
  "fov (onKeyDown key s) =
     (if key = ''f'' then max 10 (fov s - 5)
      else if key = ''F'' then min 120 (fov s + 5) else fov s)"
  by (simp add: onKeyDown_def Let_def updateChildPositions_frame updateCamera_frame)

lemma onKeyDown_angle:
  "angleBetweenChildren (onKeyDown key s) =
     (if key = ''ArrowLeft'' then max 0 (angleBetweenChildren s - pi / 36)
      else if key = ''ArrowRight'' then min pi (angleBetweenChildren s + pi / 36)
      else angleBetweenChildren s)"
  by (simp add: onKeyDown_def Let_def updateChildPositions_frame updateCamera_frame)

lemma onWindowResize_frame:
  "angleBetweenChildren (onWindowResize w h s) = angleBetweenChildren s"
  "fov (onWindowResize w h s) = fov s"
  "near (onWindowResize w h s) = near s"
  "far (onWindowResize w h s) = far s"
  "heap (onWindowResize w h s) = heap s"
  "children (onWindowResize w h s) = children s"
  "edge1 (onWindowResize w h s) = edge1 s"
  "edge2 (onWindowResize w h s) = edge2 s"
  "mainSphere (onWindowResize w h s) = mainSphere s"
  "childSphere1 (onWindowResize w h s) = childSphere1 s"
  "childSphere2 (onWindowResize w h s) = childSphere2 s"
  by (simp_all add: onWindowResize_def Let_def)

lemma main_params:
  "fov (main w h) = 75" "near (main w h) = 0.1" "far (main w h) = 50"
  "angleBetweenChildren (main w h) = pi / 4"
  by (simp_all add: main_def Let_def alloc_def updateChildPositions_frame split_def)


section \<open>C1: near plane against far plane\<close>

lemma handle_near_far:
  "near s \<le> 10 \<Longrightarrow> 10 \<le> far s \<Longrightarrow> near (handle e s) \<le> 10 \<and> 10 \<le> far (handle e s)"
  by (cases e) (simp_all add: onKeyDown_near onKeyDown_far onWindowResize_frame)

lemma run_near_far:
  "near s \<le> 10 \<Longrightarrow> 10 \<le> far s \<Longrightarrow> near (run es s) \<le> 10 \<and> 10 \<le> far (run es s)"
proof (induction es arbitrary: s)
  case Nil
  then show ?case by simp
next
  case (Cons e es)
  from handle_near_far [OF Cons.prems, of e]
  have "near (handle e s) \<le> 10" and "10 \<le> far (handle e s)" by simp_all
  then show ?case using Cons.IH by simp
qed

lemma main_near_far: "near (run es (main w h)) \<le> 10 \<and> 10 \<le> far (run es (main w h))"
  by (rule run_near_far) (simp_all add: main_params)

lemma run_append: "run (xs @ ys) s = run ys (run xs s)"
  by (induction xs arbitrary: s) simp_all


lemma presses_Suc: "run (presses (Suc n) key) s = run (presses n key) (onKeyDown key s)"
  by (simp add: presses_def)

lemma presses_0: "run (presses 0 key) s = s"
  by (simp add: presses_def)

lemma presses_N_near:
  "near s \<le> 10 \<Longrightarrow> near (run (presses n ''N'') s) = min 10 (near s + real n * 0.1)"
proof (induction n arbitrary: s)
  case 0
  then show ?case by (simp add: presses_0)
next
  case (Suc n)
  have "near (onKeyDown ''N'' s) \<le> 10" by (simp add: onKeyDown_near)
  from Suc.IH [OF this]
  have "near (run (presses n ''N'') (onKeyDown ''N'' s)) =
          min 10 (min 10 (near s + 0.1) + real n * 0.1)"
    by (simp add: onKeyDown_near)
  also have "\<dots> = min 10 (near s + real (Suc n) * 0.1)"
    by (auto simp: min_def add_divide_distrib)
  finally show ?case by (simp only: presses_Suc)
qed

lemma presses_N_far: "far (run (presses n ''N'') s) = far s"
  by (induction n arbitrary: s) (simp_all add: presses_0 presses_Suc onKeyDown_far)

lemma presses_r_far:
  "10 \<le> far s \<Longrightarrow> far (run (presses n ''r'') s) = max 10 (far s - real n * 5)"
proof (induction n arbitrary: s)
  case 0
  then show ?case by (simp add: presses_0)
next
  case (Suc n)
  have "10 \<le> far (onKeyDown ''r'' s)" by (simp add: onKeyDown_far)
  from Suc.IH [OF this]
  have "far (run (presses n ''r'') (onKeyDown ''r'' s)) =
          max 10 (max 10 (far s - 5) - real n * 5)"
    by (simp add: onKeyDown_far)
  also have "\<dots> = max 10 (far s - real (Suc n) * 5)"
    by (auto simp: max_def)
  finally show ?case by (simp only: presses_Suc)
qed

lemma presses_r_near: "near (run (presses n ''r'') s) = near s"
  by (induction n arbitrary: s) (simp_all add: presses_0 presses_Suc onKeyDown_near)

lemma near_meets_far:
  "near (run (presses 100 ''N'' @ presses 8 ''r'') (main w h)) = 10"
  "far (run (presses 100 ''N'' @ presses 8 ''r'') (main w h)) = 10"
  by (simp_all add: run_append presses_r_near presses_r_far presses_N_near presses_N_far main_params)

text \<open>
  C1, as stated: some sequence of keyboard events leads from the initial state to a state
  with near > far. It fails: every write of \<open>near\<close> is capped at 10 and every write
  of \<open>far\<close> is floored at 10, so no sequence of key presses does.
\<close>

theorem C1_inverted_frustum_unreachable:
  "\<not> (\<exists>keys w h. far (run (map KeyDown keys) (main w h)) < near (run (map KeyDown keys) (main w h)))"
proof
  assume "\<exists>keys w h. far (run (map KeyDown keys) (main w h)) < near (run (map KeyDown keys) (main w h))"
  then obtain keys w h
    where lt: "far (run (map KeyDown keys) (main w h)) < near (run (map KeyDown keys) (main w h))"
    by blast
  from main_near_far [of "map KeyDown keys" w h] lt show False by simp
qed

text \<open>
  C1, amended: in every state reached from the initial state by keyboard and resize
  events, near is at most 10 and far is at least 10, so near \<le> far is an invariant.
  The two can meet: 100 presses of N followed by 8 presses of r give near = far = 10, so
  the strict near < far is not an invariant.
\<close>

theorem C1_near_le_far:
  "near (run es (main w h)) \<le> 10 \<and> 10 \<le> far (run es (main w h))
   \<and> near (run es (main w h)) \<le> far (run es (main w h))
   \<and> near (run (presses 100 ''N'' @ presses 8 ''r'') (main w h)) = 10
   \<and> far (run (presses 100 ''N'' @ presses 8 ''r'') (main w h)) = 10"
proof -
  from main_near_far [of es w h]
  have a: "near (run es (main w h)) \<le> 10" and b: "10 \<le> far (run es (main w h))" by simp_all
  from a b have "near (run es (main w h)) \<le> far (run es (main w h))" by simp
  with a b near_meets_far [of w h] show ?thesis by simp
qed


section \<open>The angle between the children\<close>

lemma handle_angle_range:
  "0 \<le> angleBetweenChildren s \<Longrightarrow> angleBetweenChildren s \<le> pi \<Longrightarrow>
   0 \<le> angleBetweenChildren (handle e s) \<and> angleBetweenChildren (handle e s) \<le> pi"
  by (cases e) (simp_all add: onKeyDown_angle onWindowResize_frame)

lemma run_angle_range:
  "0 \<le> angleBetweenChildren s \<Longrightarrow> angleBetweenChildren s \<le> pi \<Longrightarrow>
   0 \<le> angleBetweenChildren (run es s) \<and> angleBetweenChildren (run es s) \<le> pi"
proof (induction es arbitrary: s)
  case Nil
  then show ?case by simp
next
  case (Cons e es)
  from handle_angle_range [OF Cons.prems, of e]
  have "0 \<le> angleBetweenChildren (handle e s)" and "angleBetweenChildren (handle e s) \<le> pi"
    by simp_all
  then show ?case using Cons.IH by simp
qed

lemma min_step_twice:
  fixes a d t p :: real
  shows "0 \<le> t \<Longrightarrow> min p (min p (a + d) + t) = min p (a + (d + t))"
  by (simp add: min_def)

lemma max_step_twice:
  fixes a d t p :: real
  shows "0 \<le> t \<Longrightarrow> max p (max p (a - d) - t) = max p (a - (d + t))"
  by (simp add: max_def)

lemma Suc_steps: "real (Suc n) * c = c + real n * c"
  by (simp add: algebra_simps)

lemma presses_right_angle:
  "angleBetweenChildren s \<le> pi \<Longrightarrow>
   angleBetweenChildren (run (presses n ''ArrowRight'') s) =
     min pi (angleBetweenChildren s + real n * (pi / 36))"
proof (induction n arbitrary: s)
  case 0
  then show ?case by (simp add: presses_0)
next
  case (Suc n)
  have "angleBetweenChildren (onKeyDown ''ArrowRight'' s) \<le> pi"
    by (simp add: onKeyDown_angle)
  from Suc.IH [OF this]
  have "angleBetweenChildren (run (presses n ''ArrowRight'') (onKeyDown ''ArrowRight'' s)) =
          min pi (min pi (angleBetweenChildren s + pi / 36) + real n * (pi / 36))"
    by (simp add: onKeyDown_angle)
  also have "\<dots> = min pi (angleBetweenChildren s + real (Suc n) * (pi / 36))"
  proof -
    have "0 \<le> real n * (pi / 36)" by simp
    from min_step_twice [OF this] show ?thesis by (simp only: Suc_steps)
  qed
  finally show ?case by (simp only: presses_Suc)
qed

lemma presses_left_angle:
  "0 \<le> angleBetweenChildren s \<Longrightarrow>
   angleBetweenChildren (run (presses n ''ArrowLeft'') s) =
     max 0 (angleBetweenChildren s - real n * (pi / 36))"
proof (induction n arbitrary: s)
  case 0
  then show ?case by (simp add: presses_0)
next
  case (Suc n)
  have "0 \<le> angleBetweenChildren (onKeyDown ''ArrowLeft'' s)"
    by (simp add: onKeyDown_angle)
  from Suc.IH [OF this]
  have "angleBetweenChildren (run (presses n ''ArrowLeft'') (onKeyDown ''ArrowLeft'' s)) =
          max 0 (max 0 (angleBetweenChildren s - pi / 36) - real n * (pi / 36))"
    by (simp add: onKeyDown_angle)
  also have "\<dots> = max 0 (angleBetweenChildren s - real (Suc n) * (pi / 36))"
  proof -
    have "0 \<le> real n * (pi / 36)" by simp
    from max_step_twice [OF this] show ?thesis by (simp only: Suc_steps)
  qed
  finally show ?case by (simp only: presses_Suc)
qed

text \<open>
  C3: in a state whose angle lies in [0, pi], ArrowRight sets the angle to
  min(pi, angle + pi/36) and ArrowLeft sets it to max(0, angle - pi/36); after any number
  of ArrowRight presses the angle is at most pi, after any number of ArrowLeft presses it
  is at least 0, and after any sequence of events it is still in [0, pi].
\<close>

theorem C3_angle_stays_in_range:
  assumes "0 \<le> angleBetweenChildren s" and "angleBetweenChildren s \<le> pi"
  shows "angleBetweenChildren (onKeyDown ''ArrowRight'' s) = min pi (angleBetweenChildren s + pi / 36)
       \<and> angleBetweenChildren (onKeyDown ''ArrowLeft'' s) = max 0 (angleBetweenChildren s - pi / 36)
       \<and> angleBetweenChildren (run (presses n ''ArrowRight'') s) \<le> pi
       \<and> 0 \<le> angleBetweenChildren (run (presses n ''ArrowLeft'') s)
       \<and> 0 \<le> angleBetweenChildren (run es s) \<and> angleBetweenChildren (run es s) \<le> pi"
proof -
  have r: "angleBetweenChildren (onKeyDown ''ArrowRight'' s) = min pi (angleBetweenChildren s + pi / 36)"
    by (simp add: onKeyDown_angle)
  have l: "angleBetweenChildren (onKeyDown ''ArrowLeft'' s) = max 0 (angleBetweenChildren s - pi / 36)"
    by (simp add: onKeyDown_angle)
  have rr: "angleBetweenChildren (run (presses n ''ArrowRight'') s) \<le> pi"
    using run_angle_range [OF assms, of "presses n ''ArrowRight''"] by simp
  have ll: "0 \<le> angleBetweenChildren (run (presses n ''ArrowLeft'') s)"
    using run_angle_range [OF assms, of "presses n ''ArrowLeft''"] by simp
  from r l rr ll run_angle_range [OF assms, of es] show ?thesis by simp
qed

text \<open>The start state has its angle in range; forty presses either way saturate.\<close>

theorem C3_angle_stays_in_range_witness:
  "0 \<le> angleBetweenChildren (main 800 600) \<and> angleBetweenChildren (main 800 600) \<le> pi
   \<and> angleBetweenChildren (onKeyDown ''ArrowRight'' (main 800 600)) = min pi (pi / 4 + pi / 36)
   \<and> angleBetweenChildren (onKeyDown ''ArrowLeft'' (main 800 600)) = max 0 (pi / 4 - pi / 36)
   \<and> angleBetweenChildren (run (presses 40 ''ArrowRight'') (main 800 600)) \<le> pi
   \<and> 0 \<le> angleBetweenChildren (run (presses 40 ''ArrowLeft'') (main 800 600))
   \<and> 0 \<le> angleBetweenChildren (run [KeyDown ''ArrowLeft'', Resize 1024 768, KeyDown ''f''] (main 800 600))
   \<and> angleBetweenChildren (run [KeyDown ''ArrowLeft'', Resize 1024 768, KeyDown ''f''] (main 800 600)) \<le> pi"
proof -
  have a: "0 \<le> angleBetweenChildren (main 800 600)" by (simp add: main_params)
  have b: "angleBetweenChildren (main 800 600) \<le> pi" by (simp add: main_params)
  from C3_angle_stays_in_range [OF a b, of 40 "[KeyDown ''ArrowLeft'', Resize 1024 768, KeyDown ''f'']"]
  show ?thesis using a b by (simp add: main_params)
qed






text \<open>
  C7: the start angle is pi/4; nine ArrowRight presses give pi/2, a tenth gives
  19 pi/36 (95 degrees), which is at most pi.
\<close>

theorem C7_nine_then_ten_presses:
  "angleBetweenChildren (main w h) = pi / 4
   \<and> angleBetweenChildren (run (presses 9 ''ArrowRight'') (main w h)) = pi / 2
   \<and> angleBetweenChildren (run (presses 10 ''ArrowRight'') (main w h)) = 19 * pi / 36
   \<and> angleBetweenChildren (run (presses 10 ''ArrowRight'') (main w h)) \<le> pi"
proof -
  have le: "angleBetweenChildren (main w h) \<le> pi" by (simp add: main_params)
  have nine: "angleBetweenChildren (run (presses 9 ''ArrowRight'') (main w h)) = pi / 2"
    by (simp add: presses_right_angle [OF le] main_params min_def)
  have ten: "angleBetweenChildren (run (presses 10 ''ArrowRight'') (main w h)) = 19 * pi / 36"
    by (simp add: presses_right_angle [OF le] main_params min_def)
  have "19 * pi / 36 \<le> pi" by simp
  with nine ten show ?thesis by (simp only: main_params)
qed

section \<open>The camera\<close>

text \<open>
  C8: with the field of view at its lower bound 10, the key f leaves it at 10; the
  value is written to the camera and to its projection, not rejected.
\<close>

theorem C8_fov_saturates_at_lower_bound:
  "fov s = 10 \<Longrightarrow>
   fov (onKeyDown ''f'' s) = 10 \<and> cam_fov (camera (onKeyDown ''f'' s)) = 10
   \<and> p_fov (projection (camera (onKeyDown ''f'' s))) = 10"
  by (simp add: onKeyDown_def Let_def updateCamera_def updateProjectionMatrix_def)

lemma presses_f_fov:
  "10 \<le> fov s \<Longrightarrow> fov (run (presses n ''f'') s) = max 10 (fov s - real n * 5)"
proof (induction n arbitrary: s)
  case 0
  then show ?case by (simp add: presses_0)
next
  case (Suc n)
  have "10 \<le> fov (onKeyDown ''f'' s)" by (simp add: onKeyDown_fov)
  from Suc.IH [OF this]
  have "fov (run (presses n ''f'') (onKeyDown ''f'' s)) = max 10 (max 10 (fov s - 5) - real n * 5)"
    by (simp add: onKeyDown_fov)
  also have "\<dots> = max 10 (fov s - real (Suc n) * 5)"
    by (auto simp: max_def)
  finally show ?case by (simp only: presses_Suc)
qed

text \<open>Thirteen presses of f take the field of view from 75 to 10; one more keeps 10.\<close>

theorem C8_fov_saturates_at_lower_bound_witness:
  "fov (run (presses 13 ''f'') (main 800 600)) = 10
   \<and> fov (onKeyDown ''f'' (run (presses 13 ''f'') (main 800 600))) = 10
   \<and> cam_fov (camera (onKeyDown ''f'' (run (presses 13 ''f'') (main 800 600)))) = 10
   \<and> p_fov (projection (camera (onKeyDown ''f'' (run (presses 13 ''f'') (main 800 600))))) = 10"
proof -
  have a: "fov (run (presses 13 ''f'') (main 800 600)) = 10"
    by (simp add: presses_f_fov main_params)
  from C8_fov_saturates_at_lower_bound [OF a] a show ?thesis by simp
qed


text \<open>
  C9: a resize to a window of positive height sets the camera's aspect to width/height,
  recomputes the projection from it, sets the renderer's size and refreshes the camera
  helper; the field of view, near and far (variables and camera fields), the angle, the
  objects, the scene's children and the two edges stay as they were, and nothing but
  camera, renderer size and helper view differs from the state before.
\<close>

theorem C9_resize_frame:
  assumes "0 < h"
  shows "cam_aspect (camera (onWindowResize w h s)) = Some (real w / real h)
       \<and> projection (camera (onWindowResize w h s)) =
           \<lparr> p_fov = cam_fov (camera s), p_aspect = Some (real w / real h),
             p_near = cam_near (camera s), p_far = cam_far (camera s) \<rparr>
       \<and> rendererSize (onWindowResize w h s) = (w, h)
       \<and> helperView (onWindowResize w h s) = projection (camera (onWindowResize w h s))
       \<and> cam_fov (camera (onWindowResize w h s)) = cam_fov (camera s)
       \<and> cam_near (camera (onWindowResize w h s)) = cam_near (camera s)
       \<and> cam_far (camera (onWindowResize w h s)) = cam_far (camera s)
       \<and> cam_position (camera (onWindowResize w h s)) = cam_position (camera s)
       \<and> fov (onWindowResize w h s) = fov s
       \<and> near (onWindowResize w h s) = near s
       \<and> far (onWindowResize w h s) = far s
       \<and> angleBetweenChildren (onWindowResize w h s) = angleBetweenChildren s
       \<and> heap (onWindowResize w h s) = heap s
       \<and> children (onWindowResize w h s) = children s
       \<and> edge1 (onWindowResize w h s) = edge1 s
       \<and> edge2 (onWindowResize w h s) = edge2 s
       \<and> (onWindowResize w h s)\<lparr> camera := camera s, rendererSize := rendererSize s,
                                   helperView := helperView s \<rparr> = s"
  using assms by (simp add: onWindowResize_def Let_def updateProjectionMatrix_def js_div_def)

lemma main_camera:
  "cam_fov (camera (main w h)) = 75" "cam_near (camera (main w h)) = 0.1"
  "cam_far (camera (main w h)) = 50"
  "cam_aspect (camera (main w h)) = js_div (real w) (real h)"
  by (simp_all add: main_def Let_def alloc_def updateChildPositions_frame split_def
        updateProjectionMatrix_def)

text \<open>From a window of 800 by 600 to one of 1024 by 768.\<close>

theorem C9_resize_frame_witness:
  "(0::nat) < 768
   \<and> cam_aspect (camera (main 800 600)) = Some (800 / 600)
   \<and> cam_aspect (camera (onWindowResize 1024 768 (main 800 600))) = Some (1024 / 768)
   \<and> projection (camera (onWindowResize 1024 768 (main 800 600))) =
       \<lparr> p_fov = 75, p_aspect = Some (1024 / 768), p_near = 0.1, p_far = 50 \<rparr>
   \<and> rendererSize (onWindowResize 1024 768 (main 800 600)) = (1024, 768)
   \<and> fov (onWindowResize 1024 768 (main 800 600)) = 75
   \<and> near (onWindowResize 1024 768 (main 800 600)) = 0.1
   \<and> far (onWindowResize 1024 768 (main 800 600)) = 50
   \<and> angleBetweenChildren (onWindowResize 1024 768 (main 800 600)) = pi / 4
   \<and> heap (onWindowResize 1024 768 (main 800 600)) = heap (main 800 600)
   \<and> children (onWindowResize 1024 768 (main 800 600)) = children (main 800 600)"
proof -
  have pos: "(0::nat) < 768" by simp
  from C9_resize_frame [OF pos, of 1024 "main 800 600"] pos
  show ?thesis by (simp add: main_params main_camera js_div_def)
qed


section \<open>Vector arithmetic\<close>

lemma sqrt_18: "sqrt 18 = 3 * sqrt 2"
proof -
  have "sqrt 18 = sqrt (3\<^sup>2 * 2)" by simp
  also have "\<dots> = 3 * sqrt 2" by (simp only: real_sqrt_mult real_sqrt_abs)
  finally show ?thesis .
qed

lemma vlength_zero_iff: "vlength v = 0 \<longleftrightarrow> v = Vector3 0 0 0"
proof (cases v)
  case (Vector3 a b c)
  have "a * a + b * b + c * c = 0 \<longleftrightarrow> a = 0 \<and> b = 0 \<and> c = 0"
    by (metis add_nonneg_eq_0_iff zero_le_square mult_eq_0_iff add_nonneg_nonneg)
  with Vector3 show ?thesis by (simp add: vlength_def)
qed

lemma subVectors_zero_iff: "subVectors a b = Vector3 0 0 0 \<longleftrightarrow> a = b"
  by (cases a; cases b) (simp add: subVectors_def)

lemma vlength_nonneg: "0 \<le> vlength v"
  by (simp add: vlength_def)

lemma vlength_multiplyScalar: "vlength (multiplyScalar v k) = \<bar>k\<bar> * vlength v"
proof -
  have "vx v * k * (vx v * k) + vy v * k * (vy v * k) + vz v * k * (vz v * k)
        = (k * k) * (vx v * vx v + vy v * vy v + vz v * vz v)"
    by (simp add: algebra_simps)
  then show ?thesis
    by (simp add: vlength_def multiplyScalar_def real_sqrt_mult)
qed


lemma multiplyScalar_twice: "multiplyScalar (multiplyScalar v k) m = multiplyScalar v (k * m)"
  by (simp add: multiplyScalar_def algebra_simps)

lemma normalize_scaled:
  assumes "0 < k" and "vlength d \<noteq> 0"
  shows "normalize (multiplyScalar d k) = multiplyScalar d (1 / vlength d)"
proof -
  from assms have len: "vlength (multiplyScalar d k) = k * vlength d"
    by (simp add: vlength_multiplyScalar)
  with assms have nz: "vlength (multiplyScalar d k) \<noteq> 0" by simp
  have "normalize (multiplyScalar d k) = multiplyScalar d (k * (1 / (k * vlength d)))"
    using nz by (simp add: normalize_def multiplyScalar_twice len)
  also have "k * (1 / (k * vlength d)) = 1 / vlength d"
    using assms by simp
  finally show ?thesis .
qed

lemma vlength_normalize: "vlength d \<noteq> 0 \<Longrightarrow> vlength (multiplyScalar d (1 / vlength d)) = 1"
  using vlength_nonneg [of d] by (simp add: vlength_multiplyScalar)

lemma to_end_from_midpoint:
  "subVectors e (addScaledVector s (subVectors e s) 0.5) = multiplyScalar (subVectors e s) 0.5"
  by (simp add: subVectors_def addScaledVector_def multiplyScalar_def field_simps)

section \<open>createEdge\<close>

lemma createEdge_geometry:
  "geometry (createEdge start end) =
     CylinderGeometry edgeRadius edgeRadius (vlength (subVectors end start)) 8 1"
  by (simp add: createEdge_def Let_def newMesh_def lookAt_def rotateX_def)

lemma createEdge_position:
  "position (createEdge start end) = addScaledVector start (subVectors end start) 0.5"
  by (simp add: createEdge_def Let_def newMesh_def lookAt_def rotateX_def)

lemma quarter_turn_about_X:
  "addScaledVector (multiplyScalar y (cos (pi / 2))) z (sin (pi / 2)) = z"
  by (cases z) (simp add: addScaledVector_def multiplyScalar_def)

lemma createEdge_axisY_lookAt:
  "axisY (createEdge start end) =
     normalize (subVectors end (addScaledVector start (subVectors end start) 0.5))"
  unfolding createEdge_def Let_def lookAt_def rotateX_def newMesh_def
  by (simp only: Object3D.simps quarter_turn_about_X)

lemma createEdge_axisY:
  assumes "start \<noteq> end"
  shows "axisY (createEdge start end) =
           multiplyScalar (subVectors end start) (1 / vlength (subVectors end start))"
proof -
  from assms have "vlength (subVectors end start) \<noteq> 0"
    by (auto simp: vlength_zero_iff subVectors_zero_iff)
  then show ?thesis
    by (simp only: createEdge_axisY_lookAt to_end_from_midpoint)
       (rule normalize_scaled, simp_all)
qed

text \<open>
  C5: for distinct points start and end, the cylinder built by \<open>createEdge\<close> has as
  its height the Euclidean norm of end - start, which is positive; its centre is
  start + 0.5 (end - start), the midpoint of the segment; and its long axis, the image
  of the local Y axis after \<open>lookAt(end)\<close> and \<open>rotateX(pi/2)\<close>, is the unit vector
  from start to end. The orientation rests on the two library methods as the spec
  describes them.
\<close>

theorem C5_edge_geometry:
  assumes "start \<noteq> end"
  shows "cylinderHeight (geometry (createEdge start end)) =
           Some (sqrt ((vx end - vx start) * (vx end - vx start)
                     + (vy end - vy start) * (vy end - vy start)
                     + (vz end - vz start) * (vz end - vz start)))
       \<and> cylinderHeight (geometry (createEdge start end)) = Some (vlength (subVectors end start))
       \<and> 0 < vlength (subVectors end start)
       \<and> position (createEdge start end) = addScaledVector start (subVectors end start) 0.5
       \<and> position (createEdge start end) =
           Vector3 ((vx start + vx end) / 2) ((vy start + vy end) / 2) ((vz start + vz end) / 2)
       \<and> axisY (createEdge start end) =
           multiplyScalar (subVectors end start) (1 / vlength (subVectors end start))
       \<and> vlength (axisY (createEdge start end)) = 1"
proof -
  from assms have nz: "vlength (subVectors end start) \<noteq> 0"
    by (auto simp: vlength_zero_iff subVectors_zero_iff)
  with vlength_nonneg [of "subVectors end start"]
  have pos: "0 < vlength (subVectors end start)" by simp
  have h1: "cylinderHeight (geometry (createEdge start end)) = Some (vlength (subVectors end start))"
    by (simp add: createEdge_geometry)
  have h2: "vlength (subVectors end start) =
              sqrt ((vx end - vx start) * (vx end - vx start)
                  + (vy end - vy start) * (vy end - vy start)
                  + (vz end - vz start) * (vz end - vz start))"
    by (simp add: vlength_def subVectors_def)
  have mid: "addScaledVector start (subVectors end start) 0.5 =
               Vector3 ((vx start + vx end) / 2) ((vy start + vy end) / 2) ((vz start + vz end) / 2)"
    by (simp add: addScaledVector_def subVectors_def field_simps)
  have ax: "axisY (createEdge start end) =
              multiplyScalar (subVectors end start) (1 / vlength (subVectors end start))"
    by (rule createEdge_axisY [OF assms])
  have unit: "vlength (axisY (createEdge start end)) = 1"
    by (simp only: ax vlength_normalize [OF nz])
  from h1 h2 pos mid ax unit show ?thesis
    by (simp only: createEdge_position)
qed

text \<open>From the origin to (3, -4, 0): height 5, centre (3/2, -2, 0), axis (3/5, -4/5, 0).\<close>

theorem C5_edge_geometry_witness:
  "Vector3 0 0 0 \<noteq> Vector3 3 (- 4) 0
   \<and> cylinderHeight (geometry (createEdge (Vector3 0 0 0) (Vector3 3 (- 4) 0))) = Some 5
   \<and> position (createEdge (Vector3 0 0 0) (Vector3 3 (- 4) 0)) = Vector3 (3 / 2) (- 2) 0
   \<and> axisY (createEdge (Vector3 0 0 0) (Vector3 3 (- 4) 0)) = Vector3 (3 / 5) (- 4 / 5) 0"
proof -
  have ne: "Vector3 0 0 0 \<noteq> Vector3 3 (- 4) 0" by simp
  have five: "sqrt 25 = 5"
    using real_sqrt_abs [of 5] by simp
  from C5_edge_geometry [OF ne] ne show ?thesis
    by (simp add: vlength_def subVectors_def multiplyScalar_def addScaledVector_def five)
qed


section \<open>The heap after a layout\<close>

lemma length_setPosition: "length (setPosition h i p) = length h"
  by (simp add: setPosition_def)

lemma positionOf_setPosition:
  "positionOf (setPosition h i p) j = (if i = j \<and> i < length h then p else positionOf h j)"
  by (cases "i < length h") (simp_all add: setPosition_def positionOf_def nth_list_update list_update_beyond)

lemma geometry_setPosition:
  "j < length h \<Longrightarrow> geometry (setPosition h i p ! j) = geometry (h ! j)"
  by (cases "i < length h") (simp_all add: setPosition_def nth_list_update)

lemma positionOf_append: "j < length h \<Longrightarrow> positionOf (h @ xs) j = positionOf h j"
  by (simp add: positionOf_def nth_append)

lemma updateChildPositions_heap:
  assumes "handlesValid s"
  shows "heap (updateChildPositions s) =
     setPosition
       (setPosition (heap s) (childSphere1 s)
          (Vector3 (sin (angleBetweenChildren s / 2) * 3) (- 3) (- cos (angleBetweenChildren s / 2) * 3)))
       (childSphere2 s)
       (Vector3 (- sin (angleBetweenChildren s / 2) * 3) (- 3) (- cos (angleBetweenChildren s / 2) * 3))
     @ [createEdge (positionOf (heap s) (mainSphere s))
          (Vector3 (sin (angleBetweenChildren s / 2) * 3) (- 3) (- cos (angleBetweenChildren s / 2) * 3)),
        createEdge (positionOf (heap s) (mainSphere s))
          (Vector3 (- sin (angleBetweenChildren s / 2) * 3) (- 3) (- cos (angleBetweenChildren s / 2) * 3))]"
  using assms
  by (simp add: updateChildPositions_def Let_def alloc_def handlesValid_def
        positionOf_setPosition positionOf_append length_setPosition)

lemma updateChildPositions_edges:
  "edge1 (updateChildPositions s) = Some (length (heap s))"
  "edge2 (updateChildPositions s) = Some (Suc (length (heap s)))"
  by (simp_all add: updateChildPositions_def Let_def alloc_def length_setPosition)

lemma updateChildPositions_length:
  "length (heap (updateChildPositions s)) = Suc (Suc (length (heap s)))"
  by (simp add: updateChildPositions_def Let_def alloc_def length_setPosition)

lemma updateChildPositions_children:
  "children (updateChildPositions s) =
     sceneAdd (sceneAdd (sceneRemove (sceneRemove (children s) (edge1 s)) (edge2 s))
                 (length (heap s))) (Suc (length (heap s)))"
  by (simp add: updateChildPositions_def Let_def alloc_def length_setPosition)

lemma updateChildPositions_positions:
  assumes "handlesValid s"
  shows "positionOf (heap (updateChildPositions s)) (childSphere1 s) =
           Vector3 (sin (angleBetweenChildren s / 2) * 3) (- 3) (- cos (angleBetweenChildren s / 2) * 3)"
    and "positionOf (heap (updateChildPositions s)) (childSphere2 s) =
           Vector3 (- sin (angleBetweenChildren s / 2) * 3) (- 3) (- cos (angleBetweenChildren s / 2) * 3)"
    and "positionOf (heap (updateChildPositions s)) (mainSphere s) = positionOf (heap s) (mainSphere s)"
  using assms
  by (simp_all add: updateChildPositions_heap handlesValid_def
        positionOf_setPosition positionOf_append length_setPosition)

lemma handlesValid_updateChildPositions: "handlesValid s \<Longrightarrow> handlesValid (updateChildPositions s)"
  by (simp add: handlesValid_def updateChildPositions_frame updateChildPositions_length)

lemma main_handles:
  "mainSphere (main w h) = 0" "childSphere1 (main w h) = 1" "childSphere2 (main w h) = 2"
  "edge1 (main w h) = Some 3" "edge2 (main w h) = Some 4"
  "length (heap (main w h)) = 8"
  "children (main w h) = [0, 1, 2, 3, 4, 5, 6, 7]"
  by (simp_all add: main_def Let_def alloc_def split_def updateChildPositions_frame
        updateChildPositions_edges updateChildPositions_length updateChildPositions_children
        sceneAdd_def sceneRemove_def)


section \<open>Sine and cosine of half the start angle\<close>

lemma sqrt2_bounds: "1.4142 < sqrt 2" "sqrt 2 < 1.4143"
proof -
  show "1.4142 < sqrt 2" by (rule real_less_rsqrt) (simp add: power2_eq_square)
  show "sqrt 2 < 1.4143" by (rule real_less_lsqrt) (simp_all add: power2_eq_square)
qed

lemma cos_pi_8_squared: "(cos (pi / 8))\<^sup>2 = (2 + sqrt 2) / 4"
proof -
  have "cos (2 * (pi / 8)) = 2 * (cos (pi / 8))\<^sup>2 - 1" by (rule cos_double_cos)
  moreover have "2 * (pi / 8) = pi / 4" by simp
  ultimately have "sqrt 2 / 2 = 2 * (cos (pi / 8))\<^sup>2 - 1" by (simp only: cos_45)
  then show ?thesis by (simp add: field_simps)
qed

lemma sin_pi_8_squared: "(sin (pi / 8))\<^sup>2 = (2 - sqrt 2) / 4"
proof -
  have "cos (2 * (pi / 8)) = 1 - 2 * (sin (pi / 8))\<^sup>2" by (rule cos_double_sin)
  moreover have "2 * (pi / 8) = pi / 4" by simp
  ultimately have "sqrt 2 / 2 = 1 - 2 * (sin (pi / 8))\<^sup>2" by (simp only: cos_45)
  then show ?thesis by (simp add: field_simps)
qed

lemma cos_pi_8_bounds: "0.92384 < cos (pi / 8)" "cos (pi / 8) < 0.924"
proof -
  have pos: "0 < cos (pi / 8)" by (rule cos_gt_zero_pi) simp_all
  have lo: "(0.92384::real)\<^sup>2 < (cos (pi / 8))\<^sup>2"
    using sqrt2_bounds(1) by (simp only: cos_pi_8_squared) (simp add: power2_eq_square)
  have hi: "(cos (pi / 8))\<^sup>2 < (0.924::real)\<^sup>2"
    using sqrt2_bounds(2) by (simp only: cos_pi_8_squared) (simp add: power2_eq_square)
  from lo pos show "0.92384 < cos (pi / 8)" by (rule power2_less_imp_less [OF _ less_imp_le])
  from hi show "cos (pi / 8) < 0.924" by (rule power2_less_imp_less) simp
qed

lemma sin_pi_8_bounds: "0.3825 < sin (pi / 8)" "sin (pi / 8) < 0.3828"
proof -
  have pos: "0 < sin (pi / 8)" by (rule sin_gt_zero2) simp_all
  have lo: "(0.3825::real)\<^sup>2 < (sin (pi / 8))\<^sup>2"
    using sqrt2_bounds(2) by (simp only: sin_pi_8_squared) (simp add: power2_eq_square)
  have hi: "(sin (pi / 8))\<^sup>2 < (0.3828::real)\<^sup>2"
    using sqrt2_bounds(1) by (simp only: sin_pi_8_squared) (simp add: power2_eq_square)
  from lo pos show "0.3825 < sin (pi / 8)" by (rule power2_less_imp_less [OF _ less_imp_le])
  from hi show "sin (pi / 8) < 0.3828" by (rule power2_less_imp_less) simp
qed

lemma start_layout_close:
  "\<bar>sin (pi / 4 / 2) * 3 - 1.148\<bar> < 0.0005" "\<bar>- cos (pi / 4 / 2) * 3 - (- 2.772)\<bar> < 0.0005"
  "\<bar>- sin (pi / 4 / 2) * 3 - (- 1.148)\<bar> < 0.0005"
proof -
  have e: "pi / 4 / 2 = pi / 8" by simp
  show "\<bar>sin (pi / 4 / 2) * 3 - 1.148\<bar> < 0.0005"
    unfolding e abs_less_iff using sin_pi_8_bounds by simp
  show "\<bar>- cos (pi / 4 / 2) * 3 - (- 2.772)\<bar> < 0.0005"
    unfolding e abs_less_iff using cos_pi_8_bounds by simp
  show "\<bar>- sin (pi / 4 / 2) * 3 - (- 1.148)\<bar> < 0.0005"
    unfolding e abs_less_iff using sin_pi_8_bounds by simp
qed


section \<open>The scene after a layout\<close>

lemma updateChildPositions_geometry_old:
  "i < length (heap s) \<Longrightarrow> geometry (heap (updateChildPositions s) ! i) = geometry (heap s ! i)"
  by (simp add: updateChildPositions_def Let_def alloc_def nth_append length_setPosition
        geometry_setPosition)

lemma updateChildPositions_geometry_new:
  "isCylinder (geometry (heap (updateChildPositions s) ! length (heap s)))"
  "isCylinder (geometry (heap (updateChildPositions s) ! Suc (length (heap s))))"
  by (simp_all add: updateChildPositions_def Let_def alloc_def nth_append length_setPosition
        createEdge_geometry)

lemma sceneRemove_subset: "set (sceneRemove cs ob) \<subseteq> set cs"
  by (cases ob) (simp_all add: sceneRemove_def set_remove1_subset)

lemma sceneRemove_distinct: "distinct cs \<Longrightarrow> distinct (sceneRemove cs ob)"
  by (cases ob) (simp_all add: sceneRemove_def)

lemma sceneRemove_set:
  "distinct cs \<Longrightarrow> set (sceneRemove cs ob) = set cs - set_option ob"
  by (cases ob) (simp_all add: sceneRemove_def)

lemma sceneAdd_fresh: "i \<notin> set cs \<Longrightarrow> sceneAdd cs i = cs @ [i]"
  by (simp add: sceneAdd_def remove1_idem)

lemma updateChildPositions_children_ok:
  assumes "sceneOk s"
  shows "children (updateChildPositions s) =
           sceneRemove (sceneRemove (children s) (edge1 s)) (edge2 s)
           @ [length (heap s), Suc (length (heap s))]"
proof -
  let ?c2 = "sceneRemove (sceneRemove (children s) (edge1 s)) (edge2 s)"
  from assms have below: "\<forall>i\<in>set (children s). i < length (heap s)"
    by (simp add: sceneOk_def list_all_iff)
  have sub: "set ?c2 \<subseteq> set (children s)"
    using sceneRemove_subset [of "sceneRemove (children s) (edge1 s)" "edge2 s"]
          sceneRemove_subset [of "children s" "edge1 s"] by blast
  with below have b2: "\<forall>i\<in>set ?c2. i < length (heap s)" by blast
  then have n1: "length (heap s) \<notin> set ?c2" by blast
  from b2 have n2: "Suc (length (heap s)) \<notin> set (?c2 @ [length (heap s)])" by auto
  show ?thesis
    by (simp only: updateChildPositions_children sceneAdd_fresh [OF n1] sceneAdd_fresh [OF n2])
       simp
qed

lemma no_edges_left:
  assumes "sceneOk s"
  shows "filter (\<lambda>i. isCylinder (geometry (heap s ! i)))
           (sceneRemove (sceneRemove (children s) (edge1 s)) (edge2 s)) = []"
proof -
  from assms have d: "distinct (children s)" by (simp add: sceneOk_def)
  from assms have rec: "\<forall>i\<in>set (children s). isCylinder (geometry (heap s ! i)) \<longrightarrow>
                          edge1 s = Some i \<or> edge2 s = Some i"
    by (simp add: sceneOk_def edgesInScene_def list_all_iff)
  have "set (sceneRemove (sceneRemove (children s) (edge1 s)) (edge2 s))
          = set (children s) - set_option (edge1 s) - set_option (edge2 s)"
    by (simp add: sceneRemove_set sceneRemove_distinct d)
  with rec show ?thesis
    by (auto simp: filter_empty_conv)
qed

section \<open>Well-formed states are preserved\<close>

lemma edgesInScene_updateChildPositions:
  assumes "sceneOk s"
  shows "edgesInScene (updateChildPositions s) = [length (heap s), Suc (length (heap s))]"
proof -
  let ?c2 = "sceneRemove (sceneRemove (children s) (edge1 s)) (edge2 s)"
  from assms have below: "\<forall>i\<in>set (children s). i < length (heap s)"
    by (simp add: sceneOk_def list_all_iff)
  have sub: "set ?c2 \<subseteq> set (children s)"
    using sceneRemove_subset [of "sceneRemove (children s) (edge1 s)" "edge2 s"]
          sceneRemove_subset [of "children s" "edge1 s"] by blast
  have same: "filter (\<lambda>i. isCylinder (geometry (heap (updateChildPositions s) ! i))) ?c2
              = filter (\<lambda>i. isCylinder (geometry (heap s ! i))) ?c2"
  proof (rule filter_cong [OF refl])
    fix i assume "i \<in> set ?c2"
    with sub below have "i < length (heap s)" by blast
    then show "isCylinder (geometry (heap (updateChildPositions s) ! i))
               = isCylinder (geometry (heap s ! i))"
      by (simp add: updateChildPositions_geometry_old)
  qed
  show ?thesis
    by (simp add: edgesInScene_def updateChildPositions_children_ok [OF assms] same
          no_edges_left [OF assms] updateChildPositions_geometry_new)
qed

lemma sceneOk_updateChildPositions:
  assumes "sceneOk s"
  shows "sceneOk (updateChildPositions s)"
proof -
  let ?c2 = "sceneRemove (sceneRemove (children s) (edge1 s)) (edge2 s)"
  from assms have below: "\<forall>i\<in>set (children s). i < length (heap s)"
    by (simp add: sceneOk_def list_all_iff)
  from assms have d: "distinct (children s)" by (simp add: sceneOk_def)
  have sub: "set ?c2 \<subseteq> set (children s)"
    using sceneRemove_subset [of "sceneRemove (children s) (edge1 s)" "edge2 s"]
          sceneRemove_subset [of "children s" "edge1 s"] by blast
  with below have b2: "\<forall>i\<in>set ?c2. i < length (heap s)" by blast
  have d2: "distinct ?c2" by (simp add: sceneRemove_distinct d)
  have "distinct (?c2 @ [length (heap s), Suc (length (heap s))])"
    using d2 b2 by auto
  moreover have "list_all (\<lambda>i. i < Suc (Suc (length (heap s))))
                   (?c2 @ [length (heap s), Suc (length (heap s))])"
    using b2 by (auto simp: list_all_iff)
  ultimately show ?thesis
    by (simp add: sceneOk_def updateChildPositions_children_ok [OF assms]
          edgesInScene_updateChildPositions [OF assms] updateChildPositions_length
          updateChildPositions_edges)
qed

lemma wellFormed_cong:
  "heap a = heap b \<Longrightarrow> children a = children b \<Longrightarrow> edge1 a = edge1 b \<Longrightarrow> edge2 a = edge2 b \<Longrightarrow>
   mainSphere a = mainSphere b \<Longrightarrow> childSphere1 a = childSphere1 b \<Longrightarrow>
   childSphere2 a = childSphere2 b \<Longrightarrow> wellFormed a = wellFormed b"
  by (simp add: wellFormed_def handlesValid_def sceneOk_def edgesInScene_def)

lemma wellFormed_updateChildPositions:
  assumes "wellFormed s"
  shows "wellFormed (updateChildPositions s)"
proof -
  from assms have hv: "handlesValid s" and ok: "sceneOk s"
    and root: "positionOf (heap s) (mainSphere s) = Vector3 0 0 0"
    by (simp_all add: wellFormed_def)
  show ?thesis
    by (simp add: wellFormed_def handlesValid_updateChildPositions [OF hv]
          sceneOk_updateChildPositions [OF ok] updateChildPositions_frame
          updateChildPositions_positions(3) [OF hv] root)
qed

lemma wellFormed_updateCamera: "wellFormed (updateCamera s) = wellFormed s"
  by (rule wellFormed_cong) (simp_all add: updateCamera_frame)

lemma wellFormed_onWindowResize: "wellFormed (onWindowResize w h s) = wellFormed s"
  by (rule wellFormed_cong) (simp_all add: onWindowResize_frame)

lemma wellFormed_onKeyDown:
  assumes "wellFormed s"
  shows "wellFormed (onKeyDown key s)"
proof -
  have a: "wellFormed (s\<lparr>angleBetweenChildren := x\<rparr>)" for x
    using assms wellFormed_cong [of "s\<lparr>angleBetweenChildren := x\<rparr>" s] by simp
  have f: "wellFormed (s\<lparr>fov := x\<rparr>)" for x
    using assms wellFormed_cong [of "s\<lparr>fov := x\<rparr>" s] by simp
  have n: "wellFormed (s\<lparr>near := x\<rparr>)" for x
    using assms wellFormed_cong [of "s\<lparr>near := x\<rparr>" s] by simp
  have r: "wellFormed (s\<lparr>far := x\<rparr>)" for x
    using assms wellFormed_cong [of "s\<lparr>far := x\<rparr>" s] by simp
  show ?thesis
    unfolding onKeyDown_def Let_def
    by (simp only: wellFormed_updateCamera wellFormed_updateChildPositions a f n r assms
          if_split [where P = wellFormed] simp_thms if_True if_False split: if_splits)
qed

lemma wellFormed_handle: "wellFormed s \<Longrightarrow> wellFormed (handle e s)"
  by (cases e) (simp_all add: wellFormed_onKeyDown wellFormed_onWindowResize)

lemma wellFormed_run: "wellFormed s \<Longrightarrow> wellFormed (run es s)"
  by (induction es arbitrary: s) (simp_all add: wellFormed_handle)

lemma main_heap:
  "map geometry (heap (main w h)) =
     [SphereGeometry sphereRadius 32 32, SphereGeometry sphereRadius 32 32,
      SphereGeometry sphereRadius 32 32,
      CylinderGeometry edgeRadius edgeRadius
        (vlength (subVectors (Vector3 (sin (pi / 4 / 2) * 3) (- 3) (- cos (pi / 4 / 2) * 3)) (Vector3 0 0 0))) 8 1,
      CylinderGeometry edgeRadius edgeRadius
        (vlength (subVectors (Vector3 (- sin (pi / 4 / 2) * 3) (- 3) (- cos (pi / 4 / 2) * 3)) (Vector3 0 0 0))) 8 1,
      HelperGeometry, HelperGeometry, HelperGeometry]"
  by (simp add: main_def Let_def alloc_def split_def updateChildPositions_def
        setPosition_def positionOf_def createSphere_def newMesh_def createEdge_geometry
        nth_append)


lemma main_positions:
  "positionOf (heap (main w h)) (mainSphere (main w h)) = Vector3 0 0 0"
  "positionOf (heap (main w h)) (childSphere1 (main w h)) =
     Vector3 (sin (pi / 4 / 2) * 3) (- 3) (- cos (pi / 4 / 2) * 3)"
  "positionOf (heap (main w h)) (childSphere2 (main w h)) =
     Vector3 (- sin (pi / 4 / 2) * 3) (- 3) (- cos (pi / 4 / 2) * 3)"
  by (simp_all add: main_def Let_def alloc_def split_def updateChildPositions_def
        setPosition_def positionOf_def createSphere_def newMesh_def nth_append)

lemma main_geometry_at:
  assumes "i < 8"
  shows "geometry (heap (main w h) ! i) =
     [SphereGeometry sphereRadius 32 32, SphereGeometry sphereRadius 32 32,
      SphereGeometry sphereRadius 32 32,
      CylinderGeometry edgeRadius edgeRadius
        (vlength (subVectors (Vector3 (sin (pi / 4 / 2) * 3) (- 3) (- cos (pi / 4 / 2) * 3)) (Vector3 0 0 0))) 8 1,
      CylinderGeometry edgeRadius edgeRadius
        (vlength (subVectors (Vector3 (- sin (pi / 4 / 2) * 3) (- 3) (- cos (pi / 4 / 2) * 3)) (Vector3 0 0 0))) 8 1,
      HelperGeometry, HelperGeometry, HelperGeometry] ! i"
proof -
  from assms have "i < length (heap (main w h))" by (simp only: main_handles)
  then have "geometry (heap (main w h) ! i) = map geometry (heap (main w h)) ! i"
    by (rule nth_map [symmetric])
  then show ?thesis by (simp only: main_heap)
qed

lemma main_edgesInScene: "edgesInScene (main w h) = [3, 4]"
  unfolding edgesInScene_def main_handles
  by (simp add: main_geometry_at)

lemma main_wellFormed: "wellFormed (main w h)"
proof -
  have hv: "handlesValid (main w h)"
    by (simp add: handlesValid_def main_handles)
  have ok: "sceneOk (main w h)"
    unfolding sceneOk_def main_edgesInScene by (simp add: main_handles)
  from hv ok show ?thesis by (simp add: wellFormed_def main_positions)
qed

lemma reachable_wellFormed: "wellFormed (run es (main w h))"
  by (rule wellFormed_run [OF main_wellFormed])

lemma updateChildPositions_new_edges:
  assumes "handlesValid s"
  shows "heap (updateChildPositions s) ! length (heap s) =
           createEdge (positionOf (heap s) (mainSphere s))
             (Vector3 (sin (angleBetweenChildren s / 2) * 3) (- 3) (- cos (angleBetweenChildren s / 2) * 3))"
    and "heap (updateChildPositions s) ! Suc (length (heap s)) =
           createEdge (positionOf (heap s) (mainSphere s))
             (Vector3 (- sin (angleBetweenChildren s / 2) * 3) (- 3) (- cos (angleBetweenChildren s / 2) * 3))"
  by (simp_all add: updateChildPositions_heap [OF assms] nth_append length_setPosition)

lemma main_edges:
  "heap (main w h) ! 3 =
     createEdge (Vector3 0 0 0) (Vector3 (sin (pi / 4 / 2) * 3) (- 3) (- cos (pi / 4 / 2) * 3))"
  "heap (main w h) ! 4 =
     createEdge (Vector3 0 0 0) (Vector3 (- sin (pi / 4 / 2) * 3) (- 3) (- cos (pi / 4 / 2) * 3))"
  by (simp_all add: main_def Let_def alloc_def split_def updateChildPositions_def
        setPosition_def positionOf_def createSphere_def newMesh_def nth_append)

section \<open>The layout stays current\<close>

lemma layoutCurrent_updateChildPositions:
  assumes "wellFormed s"
  shows "layoutCurrent (updateChildPositions s)"
proof -
  from assms have hv: "handlesValid s" and ok: "sceneOk s"
    and root: "positionOf (heap s) (mainSphere s) = Vector3 0 0 0"
    by (simp_all add: wellFormed_def)
  note p = updateChildPositions_positions [OF hv]
  note e = updateChildPositions_new_edges [OF hv, unfolded root]
  show ?thesis
    unfolding layoutCurrent_def Let_def
    by (simp add: updateChildPositions_frame p(1) p(2)
          edgesInScene_updateChildPositions [OF ok] updateChildPositions_edges e)
qed

lemma layoutCurrent_cong:
  "heap a = heap b \<Longrightarrow> children a = children b \<Longrightarrow> edge1 a = edge1 b \<Longrightarrow> edge2 a = edge2 b \<Longrightarrow>
   childSphere1 a = childSphere1 b \<Longrightarrow> childSphere2 a = childSphere2 b \<Longrightarrow>
   angleBetweenChildren a = angleBetweenChildren b \<Longrightarrow> layoutCurrent a = layoutCurrent b"
  by (simp add: layoutCurrent_def edgesInScene_def)

lemma layoutCurrent_onKeyDown:
  assumes "wellFormed s" and "layoutCurrent s"
  shows "layoutCurrent (onKeyDown key s)"
proof -
  have a: "wellFormed (s\<lparr>angleBetweenChildren := x\<rparr>)" for x
    using assms(1) wellFormed_cong [of "s\<lparr>angleBetweenChildren := x\<rparr>" s] by simp
  have f: "layoutCurrent (updateCamera (s\<lparr>fov := x\<rparr>))" for x
    using assms(2) layoutCurrent_cong [of "updateCamera (s\<lparr>fov := x\<rparr>)" s]
    by (simp add: updateCamera_frame)
  have n: "layoutCurrent (updateCamera (s\<lparr>near := x\<rparr>))" for x
    using assms(2) layoutCurrent_cong [of "updateCamera (s\<lparr>near := x\<rparr>)" s]
    by (simp add: updateCamera_frame)
  have r: "layoutCurrent (updateCamera (s\<lparr>far := x\<rparr>))" for x
    using assms(2) layoutCurrent_cong [of "updateCamera (s\<lparr>far := x\<rparr>)" s]
    by (simp add: updateCamera_frame)
  show ?thesis
    unfolding onKeyDown_def Let_def
    by (simp add: layoutCurrent_updateChildPositions [OF a] f n r assms(2))
qed

lemma layoutCurrent_handle:
  assumes "wellFormed s" and "layoutCurrent s"
  shows "layoutCurrent (handle e s)"
proof (cases e)
  case (KeyDown key)
  then show ?thesis by (simp add: layoutCurrent_onKeyDown [OF assms])
next
  case (Resize w h)
  have "layoutCurrent (onWindowResize w h s) = layoutCurrent s"
    by (rule layoutCurrent_cong) (simp_all add: onWindowResize_frame)
  with Resize assms(2) show ?thesis by simp
qed

lemma layoutCurrent_run:
  "wellFormed s \<Longrightarrow> layoutCurrent s \<Longrightarrow> layoutCurrent (run es s)"
proof (induction es arbitrary: s)
  case Nil
  then show ?case by simp
next
  case (Cons e es)
  from Cons.prems have "wellFormed (handle e s)" and "layoutCurrent (handle e s)"
    by (simp_all add: wellFormed_handle layoutCurrent_handle)
  then show ?case using Cons.IH by simp
qed

lemma main_layoutCurrent: "layoutCurrent (main w h)"
  unfolding layoutCurrent_def Let_def main_edgesInScene main_positions main_params
  by (simp add: main_handles main_edges)

lemma reachable_layoutCurrent: "layoutCurrent (run es (main w h))"
  by (rule layoutCurrent_run [OF main_wellFormed main_layoutCurrent])

lemma reachable_children_positions:
  "positionOf (heap (run es (main w h))) (childSphere1 (run es (main w h))) =
     Vector3 (sin (angleBetweenChildren (run es (main w h)) / 2) * 3) (- 3)
             (- cos (angleBetweenChildren (run es (main w h)) / 2) * 3)"
  "positionOf (heap (run es (main w h))) (childSphere2 (run es (main w h))) =
     Vector3 (- sin (angleBetweenChildren (run es (main w h)) / 2) * 3) (- 3)
             (- cos (angleBetweenChildren (run es (main w h)) / 2) * 3)"
  using reachable_layoutCurrent [of es w h] by (simp_all add: layoutCurrent_def Let_def)

lemma reachable_edges:
  "map Some (edgesInScene (run es (main w h))) = [edge1 (run es (main w h)), edge2 (run es (main w h))]"
  "map (\<lambda>i. heap (run es (main w h)) ! i) (edgesInScene (run es (main w h))) =
     [createEdge (Vector3 0 0 0)
        (Vector3 (sin (angleBetweenChildren (run es (main w h)) / 2) * 3) (- 3)
                 (- cos (angleBetweenChildren (run es (main w h)) / 2) * 3)),
      createEdge (Vector3 0 0 0)
        (Vector3 (- sin (angleBetweenChildren (run es (main w h)) / 2) * 3) (- 3)
                 (- cos (angleBetweenChildren (run es (main w h)) / 2) * 3))]"
  using reachable_layoutCurrent [of es w h] by (simp_all add: layoutCurrent_def Let_def)

lemma reachable_two_edges: "length (edgesInScene (run es (main w h))) = 2"
proof -
  have "length (map Some (edgesInScene (run es (main w h)))) = 2"
    by (simp only: reachable_edges(1)) simp
  then show ?thesis by simp
qed

section \<open>C2: the positions of the children\<close>

text \<open>
  C2: for an angle in [0, pi], \<open>updateChildPositions\<close> puts the first child at
  (sin(angle/2) 3, -3, -cos(angle/2) 3) and the second at (-sin(angle/2) 3, -3,
  -cos(angle/2) 3): the x coordinates are opposite, the y and z coordinates equal. In the
  start state, at angle pi/4, the children are at (1.148, -3, -2.772) and
  (-1.148, -3, -2.772) to within 0.0005 in each coordinate. The handles of the spheres
  are taken to be valid, and in every state reached from the start state the two children
  stand at these positions for the angle of that state.
\<close>

theorem C2_child_positions:
  assumes "0 \<le> angleBetweenChildren s" and "angleBetweenChildren s \<le> pi" and "handlesValid s"
  shows "positionOf (heap (updateChildPositions s)) (childSphere1 s) =
           Vector3 (sin (angleBetweenChildren s / 2) * 3) (- 3) (- cos (angleBetweenChildren s / 2) * 3)
       \<and> positionOf (heap (updateChildPositions s)) (childSphere2 s) =
           Vector3 (- sin (angleBetweenChildren s / 2) * 3) (- 3) (- cos (angleBetweenChildren s / 2) * 3)
       \<and> vx (positionOf (heap (updateChildPositions s)) (childSphere2 s)) =
           - vx (positionOf (heap (updateChildPositions s)) (childSphere1 s))
       \<and> vy (positionOf (heap (updateChildPositions s)) (childSphere2 s)) =
           vy (positionOf (heap (updateChildPositions s)) (childSphere1 s))
       \<and> vz (positionOf (heap (updateChildPositions s)) (childSphere2 s)) =
           vz (positionOf (heap (updateChildPositions s)) (childSphere1 s))
       \<and> angleBetweenChildren (main w h) = pi / 4
       \<and> \<bar>vx (positionOf (heap (main w h)) (childSphere1 (main w h))) - 1.148\<bar> < 0.0005
       \<and> vy (positionOf (heap (main w h)) (childSphere1 (main w h))) = - 3
       \<and> \<bar>vz (positionOf (heap (main w h)) (childSphere1 (main w h))) - (- 2.772)\<bar> < 0.0005
       \<and> \<bar>vx (positionOf (heap (main w h)) (childSphere2 (main w h))) - (- 1.148)\<bar> < 0.0005
       \<and> vy (positionOf (heap (main w h)) (childSphere2 (main w h))) = - 3
       \<and> \<bar>vz (positionOf (heap (main w h)) (childSphere2 (main w h))) - (- 2.772)\<bar> < 0.0005
       \<and> positionOf (heap (run es (main w h))) (childSphere1 (run es (main w h))) =
           Vector3 (sin (angleBetweenChildren (run es (main w h)) / 2) * 3) (- 3)
                   (- cos (angleBetweenChildren (run es (main w h)) / 2) * 3)
       \<and> positionOf (heap (run es (main w h))) (childSphere2 (run es (main w h))) =
           Vector3 (- sin (angleBetweenChildren (run es (main w h)) / 2) * 3) (- 3)
                   (- cos (angleBetweenChildren (run es (main w h)) / 2) * 3)"
proof -
  note p = updateChildPositions_positions [OF assms(3)]
  have general:
    "positionOf (heap (updateChildPositions s)) (childSphere1 s) =
           Vector3 (sin (angleBetweenChildren s / 2) * 3) (- 3) (- cos (angleBetweenChildren s / 2) * 3)
       \<and> positionOf (heap (updateChildPositions s)) (childSphere2 s) =
           Vector3 (- sin (angleBetweenChildren s / 2) * 3) (- 3) (- cos (angleBetweenChildren s / 2) * 3)
       \<and> vx (positionOf (heap (updateChildPositions s)) (childSphere2 s)) =
           - vx (positionOf (heap (updateChildPositions s)) (childSphere1 s))
       \<and> vy (positionOf (heap (updateChildPositions s)) (childSphere2 s)) =
           vy (positionOf (heap (updateChildPositions s)) (childSphere1 s))
       \<and> vz (positionOf (heap (updateChildPositions s)) (childSphere2 s)) =
           vz (positionOf (heap (updateChildPositions s)) (childSphere1 s))"
    by (simp add: p(1) p(2))
  have start:
    "\<bar>vx (positionOf (heap (main w h)) (childSphere1 (main w h))) - 1.148\<bar> < 0.0005
       \<and> vy (positionOf (heap (main w h)) (childSphere1 (main w h))) = - 3
       \<and> \<bar>vz (positionOf (heap (main w h)) (childSphere1 (main w h))) - (- 2.772)\<bar> < 0.0005
       \<and> \<bar>vx (positionOf (heap (main w h)) (childSphere2 (main w h))) - (- 1.148)\<bar> < 0.0005
       \<and> vy (positionOf (heap (main w h)) (childSphere2 (main w h))) = - 3
       \<and> \<bar>vz (positionOf (heap (main w h)) (childSphere2 (main w h))) - (- 2.772)\<bar> < 0.0005"
    using start_layout_close by (simp only: main_positions Vector3.sel simp_thms)
  from general start main_params(4) [of w h] reachable_children_positions [of es w h]
  show ?thesis by blast
qed

text \<open>The layout repeated in the start state, at half angle pi/8.\<close>

theorem C2_child_positions_witness:
  "0 \<le> angleBetweenChildren (main 800 600) \<and> angleBetweenChildren (main 800 600) \<le> pi
   \<and> handlesValid (main 800 600)
   \<and> positionOf (heap (updateChildPositions (main 800 600))) (childSphere1 (main 800 600)) =
       Vector3 (sin (pi / 8) * 3) (- 3) (- cos (pi / 8) * 3)
   \<and> positionOf (heap (updateChildPositions (main 800 600))) (childSphere2 (main 800 600)) =
       Vector3 (- sin (pi / 8) * 3) (- 3) (- cos (pi / 8) * 3)"
proof -
  have a: "0 \<le> angleBetweenChildren (main 800 600)" by (simp add: main_params)
  have b: "angleBetweenChildren (main 800 600) \<le> pi" by (simp add: main_params)
  have c: "handlesValid (main 800 600)" by (simp add: handlesValid_def main_handles)
  from C2_child_positions [OF a b c, where es = "[]" and w = 800 and h = 600] a b c
  show ?thesis by (simp add: main_params)
qed


section \<open>C10: no edge of length zero\<close>

lemma child1_distance:
  "vlength (subVectors (Vector3 (sin a * 3) (- 3) (- cos a * 3)) (Vector3 0 0 0)) = 3 * sqrt 2"
proof -
  have "(sin a * 3) * (sin a * 3) + (- 3) * (- 3) + (- cos a * 3) * (- cos a * 3) = 18"
    using sin_cos_squared_add3 [of a] by algebra
  then show ?thesis
    unfolding vlength_def subVectors_def Vector3.sel diff_zero by (simp only: sqrt_18)
qed

lemma child2_distance:
  "vlength (subVectors (Vector3 (- sin a * 3) (- 3) (- cos a * 3)) (Vector3 0 0 0)) = 3 * sqrt 2"
proof -
  have "(- sin a * 3) * (- sin a * 3) + (- 3) * (- 3) + (- cos a * 3) * (- cos a * 3) = 18"
    using sin_cos_squared_add3 [of a] by algebra
  then show ?thesis
    unfolding vlength_def subVectors_def Vector3.sel diff_zero by (simp only: sqrt_18)
qed

text \<open>
  C10: in a state with valid handles, the root at the origin and an angle in [0, pi],
  \<open>updateChildPositions\<close> builds its two edges by \<open>createEdge\<close> from the origin to
  (sin(angle/2) 3, -3, -cos(angle/2) 3) and to (-sin(angle/2) 3, -3, -cos(angle/2) 3).
  Neither end point is the origin; both cylinders have height 3 sqrt 2 > 0. At angle 0
  the two children are at the same point. Every state reached from the start state has
  valid handles and its root at the origin, and its two edges are the cylinders built
  from the origin to the children's positions for its angle, so every call of
  \<open>createEdge\<close> the program makes has distinct end points.
\<close>

theorem C10_edges_never_degenerate:
  assumes "handlesValid s" and "positionOf (heap s) (mainSphere s) = Vector3 0 0 0"
    and "0 \<le> angleBetweenChildren s" and "angleBetweenChildren s \<le> pi"
  shows "edge1 (updateChildPositions s) = Some (length (heap s))
       \<and> edge2 (updateChildPositions s) = Some (Suc (length (heap s)))
       \<and> heap (updateChildPositions s) ! length (heap s) =
           createEdge (Vector3 0 0 0)
             (Vector3 (sin (angleBetweenChildren s / 2) * 3) (- 3) (- cos (angleBetweenChildren s / 2) * 3))
       \<and> heap (updateChildPositions s) ! Suc (length (heap s)) =
           createEdge (Vector3 0 0 0)
             (Vector3 (- sin (angleBetweenChildren s / 2) * 3) (- 3) (- cos (angleBetweenChildren s / 2) * 3))
       \<and> Vector3 (sin (angleBetweenChildren s / 2) * 3) (- 3) (- cos (angleBetweenChildren s / 2) * 3)
           \<noteq> Vector3 0 0 0
       \<and> Vector3 (- sin (angleBetweenChildren s / 2) * 3) (- 3) (- cos (angleBetweenChildren s / 2) * 3)
           \<noteq> Vector3 0 0 0
       \<and> cylinderHeight (geometry (heap (updateChildPositions s) ! length (heap s))) = Some (3 * sqrt 2)
       \<and> cylinderHeight (geometry (heap (updateChildPositions s) ! Suc (length (heap s)))) = Some (3 * sqrt 2)
       \<and> 0 < 3 * sqrt 2
       \<and> (angleBetweenChildren s = 0 \<longrightarrow>
            positionOf (heap (updateChildPositions s)) (childSphere1 s) =
            positionOf (heap (updateChildPositions s)) (childSphere2 s))
       \<and> handlesValid (run es (main w h))
       \<and> positionOf (heap (run es (main w h))) (mainSphere (run es (main w h))) = Vector3 0 0 0
       \<and> map Some (edgesInScene (run es (main w h))) =
           [edge1 (run es (main w h)), edge2 (run es (main w h))]
       \<and> map (\<lambda>i. heap (run es (main w h)) ! i) (edgesInScene (run es (main w h))) =
           [createEdge (Vector3 0 0 0)
              (Vector3 (sin (angleBetweenChildren (run es (main w h)) / 2) * 3) (- 3)
                       (- cos (angleBetweenChildren (run es (main w h)) / 2) * 3)),
            createEdge (Vector3 0 0 0)
              (Vector3 (- sin (angleBetweenChildren (run es (main w h)) / 2) * 3) (- 3)
                       (- cos (angleBetweenChildren (run es (main w h)) / 2) * 3))]"
proof -
  note e = updateChildPositions_new_edges [OF assms(1), unfolded assms(2)]
  note p = updateChildPositions_positions [OF assms(1)]
  have h1: "cylinderHeight (geometry (heap (updateChildPositions s) ! length (heap s))) = Some (3 * sqrt 2)"
    by (simp only: e(1) createEdge_geometry cylinderHeight.simps child1_distance)
  have h2: "cylinderHeight (geometry (heap (updateChildPositions s) ! Suc (length (heap s)))) = Some (3 * sqrt 2)"
    by (simp only: e(2) createEdge_geometry cylinderHeight.simps child2_distance)
  have ne: "Vector3 (sin (angleBetweenChildren s / 2) * 3) (- 3) (- cos (angleBetweenChildren s / 2) * 3)
              \<noteq> Vector3 0 0 0"
           "Vector3 (- sin (angleBetweenChildren s / 2) * 3) (- 3) (- cos (angleBetweenChildren s / 2) * 3)
              \<noteq> Vector3 0 0 0"
    by simp_all
  have pos: "0 < 3 * sqrt 2" by simp
  have zero: "angleBetweenChildren s = 0 \<longrightarrow>
            positionOf (heap (updateChildPositions s)) (childSphere1 s) =
            positionOf (heap (updateChildPositions s)) (childSphere2 s)"
    by (simp add: p(1) p(2))
  from reachable_wellFormed [of es w h]
  have r: "handlesValid (run es (main w h))"
          "positionOf (heap (run es (main w h))) (mainSphere (run es (main w h))) = Vector3 0 0 0"
    by (simp_all add: wellFormed_def)
  from e h1 h2 ne pos zero r updateChildPositions_edges [of s] reachable_edges [of es w h]
  show ?thesis by blast
qed

text \<open>A layout in the start state: the new edges are objects 8 and 9.\<close>

theorem C10_edges_never_degenerate_witness:
  "handlesValid (main 800 600)
   \<and> positionOf (heap (main 800 600)) (mainSphere (main 800 600)) = Vector3 0 0 0
   \<and> 0 \<le> angleBetweenChildren (main 800 600) \<and> angleBetweenChildren (main 800 600) \<le> pi
   \<and> edge1 (updateChildPositions (main 800 600)) = Some 8
   \<and> edge2 (updateChildPositions (main 800 600)) = Some 9
   \<and> heap (updateChildPositions (main 800 600)) ! 8 =
       createEdge (Vector3 0 0 0) (Vector3 (sin (pi / 8) * 3) (- 3) (- cos (pi / 8) * 3))
   \<and> heap (updateChildPositions (main 800 600)) ! 9 =
       createEdge (Vector3 0 0 0) (Vector3 (- sin (pi / 8) * 3) (- 3) (- cos (pi / 8) * 3))
   \<and> cylinderHeight (geometry (heap (updateChildPositions (main 800 600)) ! 8)) = Some (3 * sqrt 2)
   \<and> cylinderHeight (geometry (heap (updateChildPositions (main 800 600)) ! 9)) = Some (3 * sqrt 2)"
proof -
  have a: "handlesValid (main 800 600)" by (simp add: handlesValid_def main_handles)
  have b: "positionOf (heap (main 800 600)) (mainSphere (main 800 600)) = Vector3 0 0 0"
    by (simp add: main_positions)
  have c: "0 \<le> angleBetweenChildren (main 800 600)" by (simp add: main_params)
  have d: "angleBetweenChildren (main 800 600) \<le> pi" by (simp add: main_params)
  have len: "length (heap (main 800 600)) = 8" by (simp add: main_handles)
  have half: "angleBetweenChildren (main 800 600) / 2 = pi / 8" by (simp add: main_params)
  have nine: "Suc 8 = 9" by simp
  from C10_edges_never_degenerate [OF a b c d, where es = "[]" and w = 800 and h = 600,
         unfolded len half nine] a b c d
  show ?thesis by blast
qed

section \<open>C4: rebuilding the edges\<close>

lemma remove_two_appended:
  "a \<notin> set cs \<Longrightarrow> b \<notin> set cs \<Longrightarrow> a \<noteq> b \<Longrightarrow>
   sceneRemove (sceneRemove (cs @ [a, b]) (Some a)) (Some b) = cs"
  by (simp add: sceneRemove_def remove1_append)

text \<open>
  C4: in a well-formed scene, two calls of \<open>updateChildPositions\<close> in a row leave
  exactly two edges among the scene's children, the two recorded in \<open>edge1\<close> and
  \<open>edge2\<close>; the edges of the first call are no longer children, the scene has as many
  children as after the first call, and the new edges are built as the old ones were.
  After the first call alone there are two edges as well, and so there are in every
  state reached from the start state: the edges in the scene are the two recorded ones.
\<close>

theorem C4_rebuild_keeps_two_edges:
  assumes "sceneOk s" and "handlesValid s"
  shows "edgesInScene (updateChildPositions s) = [length (heap s), Suc (length (heap s))]
       \<and> edgesInScene (updateChildPositions (updateChildPositions s)) =
           [length (heap (updateChildPositions s)), Suc (length (heap (updateChildPositions s)))]
       \<and> length (edgesInScene (updateChildPositions (updateChildPositions s))) = 2
       \<and> edge1 (updateChildPositions (updateChildPositions s)) =
           Some (length (heap (updateChildPositions s)))
       \<and> edge2 (updateChildPositions (updateChildPositions s)) =
           Some (Suc (length (heap (updateChildPositions s))))
       \<and> length (heap s) \<notin> set (children (updateChildPositions (updateChildPositions s)))
       \<and> Suc (length (heap s)) \<notin> set (children (updateChildPositions (updateChildPositions s)))
       \<and> length (children (updateChildPositions (updateChildPositions s))) =
           length (children (updateChildPositions s))
       \<and> heap (updateChildPositions (updateChildPositions s)) ! length (heap (updateChildPositions s)) =
           heap (updateChildPositions s) ! length (heap s)
       \<and> heap (updateChildPositions (updateChildPositions s)) ! Suc (length (heap (updateChildPositions s))) =
           heap (updateChildPositions s) ! Suc (length (heap s))
       \<and> map Some (edgesInScene (run es (main w h))) =
           [edge1 (run es (main w h)), edge2 (run es (main w h))]
       \<and> length (edgesInScene (run es (main w h))) = 2"
proof -
  let ?s1 = "updateChildPositions s"
  let ?n = "length (heap s)"
  let ?c0 = "sceneRemove (sceneRemove (children s) (edge1 s)) (edge2 s)"
  have ok1: "sceneOk ?s1" by (rule sceneOk_updateChildPositions [OF assms(1)])
  have hv1: "handlesValid ?s1" by (rule handlesValid_updateChildPositions [OF assms(2)])
  have len1: "length (heap ?s1) = Suc (Suc ?n)" by (rule updateChildPositions_length)
  have e1: "edgesInScene ?s1 = [?n, Suc ?n]"
    by (rule edgesInScene_updateChildPositions [OF assms(1)])
  have e2: "edgesInScene (updateChildPositions ?s1) = [length (heap ?s1), Suc (length (heap ?s1))]"
    by (rule edgesInScene_updateChildPositions [OF ok1])
  have c1: "children ?s1 = ?c0 @ [?n, Suc ?n]"
    by (rule updateChildPositions_children_ok [OF assms(1)])
  from assms(1) have below: "\<forall>i\<in>set (children s). i < ?n"
    by (simp add: sceneOk_def list_all_iff)
  have sub: "set ?c0 \<subseteq> set (children s)"
    using sceneRemove_subset [of "sceneRemove (children s) (edge1 s)" "edge2 s"]
          sceneRemove_subset [of "children s" "edge1 s"] by blast
  with below have b2: "\<forall>i\<in>set ?c0. i < ?n" by blast
  from b2 have n1: "?n \<notin> set ?c0" by blast
  from b2 have n2: "Suc ?n \<notin> set ?c0" by auto
  have rem: "sceneRemove (sceneRemove (children ?s1) (edge1 ?s1)) (edge2 ?s1) = ?c0"
    unfolding c1 updateChildPositions_edges
    by (rule remove_two_appended [OF n1 n2]) simp
  have c2: "children (updateChildPositions ?s1) = ?c0 @ [length (heap ?s1), Suc (length (heap ?s1))]"
    by (simp only: updateChildPositions_children_ok [OF ok1] rem)
  have gone: "?n \<notin> set (children (updateChildPositions ?s1))"
             "Suc ?n \<notin> set (children (updateChildPositions ?s1))"
    using n1 n2 by (simp_all add: c2 len1)
  have samelen: "length (children (updateChildPositions ?s1)) = length (children ?s1)"
    by (simp add: c1 c2)
  have pm: "positionOf (heap ?s1) (mainSphere s) = positionOf (heap s) (mainSphere s)"
    by (rule updateChildPositions_positions(3) [OF assms(2)])
  have o1: "heap (updateChildPositions ?s1) ! length (heap ?s1) = heap ?s1 ! ?n"
    by (simp only: updateChildPositions_new_edges(1) [OF hv1]
          updateChildPositions_new_edges(1) [OF assms(2)] updateChildPositions_frame pm)
  have o2: "heap (updateChildPositions ?s1) ! Suc (length (heap ?s1)) = heap ?s1 ! Suc ?n"
    by (simp only: updateChildPositions_new_edges(2) [OF hv1]
          updateChildPositions_new_edges(2) [OF assms(2)] updateChildPositions_frame pm)
  have two: "length (edgesInScene (updateChildPositions ?s1)) = 2"
    by (simp add: e2)
  from e1 e2 two updateChildPositions_edges [of ?s1] gone samelen o1 o2
       reachable_edges(1) [of es w h] reachable_two_edges [of es w h]
  show ?thesis by blast
qed

text \<open>From the start state: edges 3 and 4, then 8 and 9, then 10 and 11.\<close>

theorem C4_rebuild_keeps_two_edges_witness:
  "sceneOk (main 800 600) \<and> handlesValid (main 800 600)
   \<and> edgesInScene (main 800 600) = [3, 4]
   \<and> edgesInScene (updateChildPositions (main 800 600)) = [8, 9]
   \<and> edgesInScene (updateChildPositions (updateChildPositions (main 800 600))) = [10, 11]
   \<and> length (edgesInScene (updateChildPositions (updateChildPositions (main 800 600)))) = 2"
proof -
  from main_wellFormed [of 800 600]
  have a: "sceneOk (main 800 600)" and b: "handlesValid (main 800 600)"
    by (simp_all add: wellFormed_def)
  from C4_rebuild_keeps_two_edges [OF a b, where es = "[]" and w = 800 and h = 600]
       a b main_edgesInScene [of 800 600]
  show ?thesis by (simp add: main_handles updateChildPositions_length)
qed


end
